theory Spec2Isabelle
  imports Main "HOL-Library.Sublist" "HOL-Library.AList"
begin

section \<open>Values and strings of the host language\<close>

text \<open>
  Tool arguments and tool inputs are untyped values that arrive as parsed JSON
  (\<^verbatim>\<open>ToolArgs\<close>, \<^verbatim>\<open>input?: any\<close>). Numbers are kept integral; an absent property
  (\<^verbatim>\<open>undefined\<close>) is \<open>None\<close> of \<open>json option\<close>.
\<close>

datatype json =
    JNull
  | JBool bool
  | JNum int
  | JStr string
  | JArr "json list"
  | JObj "(string \<times> json) list"

text \<open>A thrown \<^verbatim>\<open>Error\<close> is carried as a value; only its \<^verbatim>\<open>message\<close> is ever read.\<close>

datatype error = Error string

fun message :: "error \<Rightarrow> string" where
  "message (Error m) = m"

text \<open>Truthiness, as \<^verbatim>\<open>||\<close>, \<^verbatim>\<open>!\<close> and \<^verbatim>\<open>if\<close> test it.\<close>

fun truthy :: "json option \<Rightarrow> bool" where
  "truthy None = False"
| "truthy (Some JNull) = False"
| "truthy (Some (JBool b)) = b"
| "truthy (Some (JNum n)) = (n \<noteq> 0)"
| "truthy (Some (JStr s)) = (s \<noteq> [])"
| "truthy (Some (JArr xs)) = True"
| "truthy (Some (JObj kvs)) = True"

text \<open>
  Property read \<^verbatim>\<open>args.key\<close> for the keys the tools use (\<^verbatim>\<open>path\<close>, \<^verbatim>\<open>old\<close>,
  \<^verbatim>\<open>new\<close>, \<^verbatim>\<open>all\<close>, \<^verbatim>\<open>content\<close>): none of them is an index, \<^verbatim>\<open>length\<close> or a
  prototype property, so every value that is not an object yields \<^verbatim>\<open>undefined\<close>.
  The keys of a parsed object are distinct.
\<close>

fun get_prop :: "json \<Rightarrow> string \<Rightarrow> json option" where
  "get_prop (JObj kvs) k = map_of kvs k"
| "get_prop _ k = None"

text \<open>Truthy string: \<^verbatim>\<open>s || fallback\<close> on an optional string.\<close>

fun or_else :: "string option \<Rightarrow> string \<Rightarrow> string" where
  "or_else None d = d"
| "or_else (Some s) d = (if s = [] then d else s)"

fun or_null :: "string option \<Rightarrow> string option" where
  "or_null None = None"
| "or_null (Some s) = (if s = [] then None else Some s)"

subsection \<open>String built-ins\<close>

definition digit_char :: "nat \<Rightarrow> char" where
  "digit_char n = ''0123456789'' ! (n mod 10)"

text \<open>Decimal rendering of a count or status code inside a template literal.\<close>

function string_of_nat :: "nat \<Rightarrow> string" where
  "string_of_nat n =
     (if n < 10 then [digit_char n] else string_of_nat (n div 10) @ [digit_char (n mod 10)])"
  by pat_completeness auto
termination
  by (relation "measure id") auto

declare string_of_nat.simps [simp del]

text \<open>\<^verbatim>\<open>s.endsWith(t)\<close>.\<close>

definition endsWith :: "string \<Rightarrow> string \<Rightarrow> bool" where
  "endsWith s t = prefix (rev t) (rev s)"

text \<open>\<^verbatim>\<open>text.indexOf(pat)\<close>, with \<open>None\<close> for -1.\<close>

fun indexOf :: "string \<Rightarrow> string \<Rightarrow> nat option" where
  "indexOf [] pat = (if pat = [] then Some 0 else None)"
| "indexOf (c # cs) pat =
     (if prefix pat (c # cs) then Some 0 else map_option Suc (indexOf cs pat))"

text \<open>\<^verbatim>\<open>text.includes(pat)\<close>.\<close>

definition str_includes :: "string \<Rightarrow> string \<Rightarrow> bool" where
  "str_includes text pat = (indexOf text pat \<noteq> None)"

text \<open>
  The replacement template of \<^verbatim>\<open>String.prototype.replace\<close> with a string pattern:
  \<^verbatim>\<open>$$\<close> is a dollar, \<^verbatim>\<open>$&\<close> the match, \<^verbatim>\<open>$`\<close> the text before it and
  \<^verbatim>\<open>$'\<close> the text after it; there are no captures, so every other \<^verbatim>\<open>$\<close> is literal.
\<close>

fun getSubstitution :: "string \<Rightarrow> string \<Rightarrow> string \<Rightarrow> string \<Rightarrow> string" where
  "getSubstitution matched pre post [] = []"
| "getSubstitution matched pre post [c] = [c]"
| "getSubstitution matched pre post (c # d # r) =
     (if c = CHR ''$'' \<and> d = CHR ''$'' then CHR ''$'' # getSubstitution matched pre post r
      else if c = CHR ''$'' \<and> d = CHR ''&'' then matched @ getSubstitution matched pre post r
      else if c = CHR ''$'' \<and> d = CHR 0x60 then pre @ getSubstitution matched pre post r
      else if c = CHR ''$'' \<and> d = CHR 0x27 then post @ getSubstitution matched pre post r
      else c # getSubstitution matched pre post (d # r))"

text \<open>\<^verbatim>\<open>text.replace(pat, repl)\<close> with a string pattern: the first occurrence only.\<close>

definition replace :: "string \<Rightarrow> string \<Rightarrow> string \<Rightarrow> string" where
  "replace text pat repl =
     (case indexOf text pat of
        None \<Rightarrow> text
      | Some i \<Rightarrow>
          (let pre = take i text; post = drop (i + length pat) text
           in pre @ getSubstitution pat pre post repl @ post))"

text \<open>
  \<^verbatim>\<open>text.split(sep).join(glue)\<close>: every occurrence of a non-empty \<open>sep\<close>, found left to
  right without overlap, becomes \<open>glue\<close>; the first argument counts the characters of
  a match still to skip. An empty separator splits between all characters.
\<close>

fun split_join_from :: "nat \<Rightarrow> string \<Rightarrow> string \<Rightarrow> string \<Rightarrow> string" where
  "split_join_from k [] sep glue = []"
| "split_join_from (Suc k) (c # cs) sep glue = split_join_from k cs sep glue"
| "split_join_from 0 (c # cs) sep glue =
     (if prefix sep (c # cs) then glue @ split_join_from (length sep - 1) cs sep glue
      else c # split_join_from 0 cs sep glue)"

fun intersperse_str :: "string \<Rightarrow> string \<Rightarrow> string" where
  "intersperse_str glue [] = []"
| "intersperse_str glue [c] = [c]"
| "intersperse_str glue (c # cs) = c # glue @ intersperse_str glue cs"

definition split_join :: "string \<Rightarrow> string \<Rightarrow> string \<Rightarrow> string" where
  "split_join text sep glue =
     (if sep = [] then intersperse_str glue text else split_join_from 0 text sep glue)"

text \<open>
  \<^verbatim>\<open>(text.match(new RegExp(escaped, 'g')) || []).length\<close>: the pattern is \<open>old\<close> with
  every regex metacharacter escaped, so the global match counts the occurrences of the
  literal \<open>old\<close>, left to right without overlap; the empty pattern matches at every
  position, the end included.
\<close>

fun count_from :: "nat \<Rightarrow> string \<Rightarrow> string \<Rightarrow> nat" where
  "count_from k [] pat = 0"
| "count_from (Suc k) (c # cs) pat = count_from k cs pat"
| "count_from 0 (c # cs) pat =
     (if prefix pat (c # cs) then Suc (count_from (length pat - 1) cs pat)
      else count_from 0 cs pat)"

definition match_count :: "string \<Rightarrow> string \<Rightarrow> nat" where
  "match_count text old = (if old = [] then Suc (length text) else count_from 0 text old)"

section \<open>External collaborators\<close>

text \<open>
  What the program calls but does not define: the JSON codec, the coercion of a value
  to a string where a built-in applies it (it throws on an object whose own
  \<^verbatim>\<open>toString\<close> property is not callable), the file system of type \<open>'w\<close>, and the
  one-line preview of a tool call's first argument that the loop prints (the same
  coercion, so it can throw). The bodies of the tools \<^verbatim>\<open>read\<close>, \<^verbatim>\<open>glob\<close>, \<^verbatim>\<open>grep\<close>
  and \<^verbatim>\<open>bash\<close> are not looked into below: each is any function from the arguments
  and the world to a returned string or a thrown error, and a new world.
  \<open>Inl\<close> is a thrown error.
\<close>

record 'w env =
  JSON_stringify :: "json \<Rightarrow> string"
  JSON_parse :: "string \<Rightarrow> error + json"
  ToString :: "json \<Rightarrow> error + string"
  readFileSync :: "'w \<Rightarrow> json option \<Rightarrow> error + string"
  writeFileSync :: "'w \<Rightarrow> json option \<Rightarrow> json option \<Rightarrow> error option \<times> 'w"
  readFile :: "json \<Rightarrow> 'w \<Rightarrow> (error + string) \<times> 'w"
  globFiles :: "json \<Rightarrow> 'w \<Rightarrow> (error + string) \<times> 'w"
  grepFiles :: "json \<Rightarrow> 'w \<Rightarrow> (error + string) \<times> 'w"
  runBash :: "json \<Rightarrow> 'w \<Rightarrow> (error + string) \<times> 'w"
  argPreview :: "json \<Rightarrow> error + string"

text \<open>Coercion to a string: the primitive cases are fixed, the rest is the host's.\<close>

fun to_string :: "'w env \<Rightarrow> json option \<Rightarrow> error + string" where
  "to_string env None = Inr ''undefined''"
| "to_string env (Some JNull) = Inr ''null''"
| "to_string env (Some (JBool b)) = Inr (if b then ''true'' else ''false'')"
| "to_string env (Some (JStr s)) = Inr s"
| "to_string env (Some v) = ToString env v"

section \<open>Tools\<close>

record 'w ToolDefinition =
  description :: string
  params :: "(string \<times> string) list"
  fn :: "json \<Rightarrow> 'w \<Rightarrow> (error + string) \<times> 'w"

definition writeFile :: "'w env \<Rightarrow> json \<Rightarrow> 'w \<Rightarrow> (error + string) \<times> 'w" where
  "writeFile env args w =
     (case writeFileSync env w (get_prop args ''path'') (get_prop args ''content'') of
        (Some e, w') \<Rightarrow> (Inl e, w')
      | (None, w') \<Rightarrow> (Inr ''ok'', w'))"

text \<open>The \<^verbatim>\<open>TypeError\<close> of \<^verbatim>\<open>old.replace(...)\<close> on a value that is not a string.\<close>

fun replace_TypeError :: "json option \<Rightarrow> error" where
  "replace_TypeError None =
     Error (''Cannot read properties of undefined (reading '' @ [CHR 0x27] @ ''replace''
            @ [CHR 0x27] @ '')'')"
| "replace_TypeError (Some JNull) =
     Error (''Cannot read properties of null (reading '' @ [CHR 0x27] @ ''replace''
            @ [CHR 0x27] @ '')'')"
| "replace_TypeError (Some v) = Error ''old.replace is not a function''"

text \<open>
  \<^verbatim>\<open>editFile\<close>. \<^verbatim>\<open>text.includes(old)\<close> coerces \<open>old\<close>; the regex is then built from
  \<^verbatim>\<open>old.replace(...)\<close>, which exists on strings only. \<^verbatim>\<open>join\<close> takes a comma for an
  undefined separator, \<^verbatim>\<open>replace\<close> coerces its replacement.
\<close>

definition editFile :: "'w env \<Rightarrow> json \<Rightarrow> 'w \<Rightarrow> (error + string) \<times> 'w" where
  "editFile env args w =
     (let filePath = get_prop args ''path'' in
      case readFileSync env w filePath of
        Inl e \<Rightarrow> (Inl e, w)
      | Inr text \<Rightarrow>
          (let old = get_prop args ''old''; newStr = get_prop args ''new'' in
           case to_string env old of
             Inl e \<Rightarrow> (Inl e, w)
           | Inr old_text \<Rightarrow>
               if \<not> str_includes text old_text then (Inr ''error: old_string not found'', w)
               else
                 (case old of
                    Some (JStr old_str) \<Rightarrow>
                      (let count = match_count text old_str in
                       if \<not> truthy (get_prop args ''all'') \<and> count > 1
                       then (Inr (''error: old_string appears '' @ string_of_nat count
                                  @ '' times, must be unique (use all=true)''), w)
                       else
                         (case (if truthy (get_prop args ''all'')
                                then (case newStr of
                                        None \<Rightarrow> Inr (split_join text old_str '','')
                                      | Some v \<Rightarrow>
                                          map_sum id (split_join text old_str)
                                            (to_string env newStr))
                                else map_sum id (replace text old_str) (to_string env newStr)) of
                            Inl e \<Rightarrow> (Inl e, w)
                          | Inr replacement \<Rightarrow>
                              (case writeFileSync env w filePath (Some (JStr replacement)) of
                                 (Some e, w') \<Rightarrow> (Inl e, w')
                               | (None, w') \<Rightarrow> (Inr ''ok'', w'))))
                  | _ \<Rightarrow> (Inl (replace_TypeError old), w))))"

definition TOOLS :: "'w env \<Rightarrow> (string \<times> 'w ToolDefinition) list" where
  "TOOLS env =
     [(''read'',
       \<lparr>description = ''Read file with line numbers (file path, not directory)'',
        params = [(''path'', ''string''), (''offset'', ''number?''), (''limit'', ''number?'')],
        fn = readFile env\<rparr>),
      (''write'',
       \<lparr>description = ''Write content to file'',
        params = [(''path'', ''string''), (''content'', ''string'')],
        fn = writeFile env\<rparr>),
      (''edit'',
       \<lparr>description = ''Replace old with new in file (old must be unique unless all=true)'',
        params = [(''path'', ''string''), (''old'', ''string''), (''new'', ''string''),
                  (''all'', ''boolean?'')],
        fn = editFile env\<rparr>),
      (''glob'',
       \<lparr>description = ''Find files by pattern, sorted by mtime'',
        params = [(''pat'', ''string''), (''path'', ''string?'')],
        fn = globFiles env\<rparr>),
      (''grep'',
       \<lparr>description = ''Search files for regex pattern'',
        params = [(''pat'', ''string''), (''path'', ''string?'')],
        fn = grepFiles env\<rparr>),
      (''bash'',
       \<lparr>description = ''Run shell command'',
        params = [(''cmd'', ''string'')],
        fn = runBash env\<rparr>)]"

text \<open>
  \<^verbatim>\<open>TOOLS[name]\<close> on a name that is no key of the table is \<^verbatim>\<open>undefined\<close>, or a
  property inherited from \<^verbatim>\<open>Object.prototype\<close>; neither has a callable \<^verbatim>\<open>fn\<close>.
\<close>

definition Object_prototype_keys :: "string list" where
  "Object_prototype_keys =
     [''constructor'', ''__proto__'', ''hasOwnProperty'', ''isPrototypeOf'',
      ''propertyIsEnumerable'', ''toLocaleString'', ''toString'', ''valueOf'',
      ''__defineGetter__'', ''__defineSetter__'', ''__lookupGetter__'', ''__lookupSetter__'']"

definition lookup_TypeError :: "string \<Rightarrow> error" where
  "lookup_TypeError name =
     (if name \<in> set Object_prototype_keys then Error ''TOOLS[name].fn is not a function''
      else Error (''Cannot read properties of undefined (reading '' @ [CHR 0x27] @ ''fn''
                  @ [CHR 0x27] @ '')''))"

text \<open>The body of the \<^verbatim>\<open>try\<close>: \<^verbatim>\<open>await TOOLS[name].fn(args)\<close>.\<close>

definition call_tool :: "'w env \<Rightarrow> string \<Rightarrow> json \<Rightarrow> 'w \<Rightarrow> (error + string) \<times> 'w" where
  "call_tool env name args w =
     (case map_of (TOOLS env) name of
        None \<Rightarrow> (Inl (lookup_TypeError name), w)
      | Some d \<Rightarrow> fn d args w)"

definition runTool :: "'w env \<Rightarrow> string \<Rightarrow> json \<Rightarrow> 'w \<Rightarrow> string \<times> 'w" where
  "runTool env name args w =
     (case call_tool env name args w of
        (Inl err, w') \<Rightarrow> (''error: '' @ message err, w')
      | (Inr result, w') \<Rightarrow> (result, w'))"

section \<open>Tool schemas\<close>

record PropertySchema =
  ps_type :: string

record InputSchema =
  is_type :: string
  properties :: "(string \<times> PropertySchema) list"
  required :: "string list"

record ToolSchema =
  ts_name :: string
  ts_description :: string
  input_schema :: InputSchema

text \<open>The inner loop of \<^verbatim>\<open>makeSchema\<close> over \<^verbatim>\<open>Object.entries(def.params)\<close>.\<close>

fun schema_params ::
  "(string \<times> string) list \<Rightarrow> (string \<times> PropertySchema) list \<times> string list \<Rightarrow>
   (string \<times> PropertySchema) list \<times> string list" where
  "schema_params [] acc = acc"
| "schema_params ((paramName, paramType) # ps) (props, req) =
     (let isOptional = endsWith paramType ''?'';
          baseType = replace paramType ''?'' ''''
      in schema_params ps
           (AList.update paramName
              \<lparr>ps_type = (if baseType = ''number'' then ''integer'' else baseType)\<rparr> props,
            if \<not> isOptional then req @ [paramName] else req))"

definition tool_schema :: "string \<times> 'w ToolDefinition \<Rightarrow> ToolSchema" where
  "tool_schema entry =
     (case entry of (name, d) \<Rightarrow>
        (case schema_params (params d) ([], []) of (props, req) \<Rightarrow>
           \<lparr>ts_name = name, ts_description = description d,
            input_schema = \<lparr>is_type = ''object'', properties = props, required = req\<rparr>\<rparr>))"

definition makeSchema :: "'w env \<Rightarrow> ToolSchema list" where
  "makeSchema env = map tool_schema (TOOLS env)"

section \<open>Messages and the two wire shapes\<close>

datatype Role = User | Assistant | System

text \<open>
  \<^verbatim>\<open>ContentBlock\<close>, with the two fields of the \<^verbatim>\<open>tool_result\<close> objects that the loop
  builds; a field that is not set is \<open>None\<close>.
\<close>

record ContentBlock =
  blk_type :: string
  blk_text :: "string option"
  blk_id :: "string option"
  blk_name :: "string option"
  blk_input :: "json option"
  blk_tool_use_id :: "string option"
  blk_content :: "string option"

text \<open>\<^verbatim>\<open>content: any\<close> is a string or an array of blocks (\<^verbatim>\<open>Array.isArray\<close>).\<close>

datatype Content = Text string | Blocks "ContentBlock list"

record Message =
  role :: Role
  content :: Content

definition text_block :: "string \<Rightarrow> ContentBlock" where
  "text_block t =
     \<lparr>blk_type = ''text'', blk_text = Some t, blk_id = None, blk_name = None,
      blk_input = None, blk_tool_use_id = None, blk_content = None\<rparr>"

definition tool_use_block :: "string option \<Rightarrow> string option \<Rightarrow> json option \<Rightarrow> ContentBlock" where
  "tool_use_block i n inp =
     \<lparr>blk_type = ''tool_use'', blk_text = None, blk_id = i, blk_name = n,
      blk_input = inp, blk_tool_use_id = None, blk_content = None\<rparr>"

definition tool_result_block :: "string option \<Rightarrow> string \<Rightarrow> ContentBlock" where
  "tool_result_block i result =
     \<lparr>blk_type = ''tool_result'', blk_text = None, blk_id = None, blk_name = None,
      blk_input = None, blk_tool_use_id = i, blk_content = Some result\<rparr>"

text \<open>A block as the JSON object that \<^verbatim>\<open>JSON.stringify\<close> sees: unset fields are left out.\<close>

fun opt_field :: "string \<Rightarrow> json option \<Rightarrow> (string \<times> json) list" where
  "opt_field k None = []"
| "opt_field k (Some v) = [(k, v)]"

definition json_of_block :: "ContentBlock \<Rightarrow> json" where
  "json_of_block b =
     JObj ([(''type'', JStr (blk_type b))]
           @ opt_field ''text'' (map_option JStr (blk_text b))
           @ opt_field ''id'' (map_option JStr (blk_id b))
           @ opt_field ''name'' (map_option JStr (blk_name b))
           @ opt_field ''input'' (blk_input b)
           @ opt_field ''tool_use_id'' (map_option JStr (blk_tool_use_id b))
           @ opt_field ''content'' (map_option JStr (blk_content b)))"

record FunctionCall =
  fc_name :: "string option"
  arguments :: "string option"

record ToolCall =
  tc_id :: "string option"
  tc_type :: string
  tc_function :: FunctionCall

record ChatMessage =
  cm_role :: string
  cm_content :: "string option"
  tool_calls :: "ToolCall list option"
  tool_call_id :: "string option"

record FunctionSpec =
  fs_name :: string
  fs_description :: string
  fs_parameters :: InputSchema

record OpenAiTool =
  ot_type :: string
  ot_function :: FunctionSpec

datatype Provider = openrouter | groq | anthropic

record ApiConfig =
  url :: string
  key :: string
  model :: string
  provider :: Provider

record MessagesBody =
  mb_model :: string
  mb_max_tokens :: nat
  mb_system :: string
  mb_messages :: "Message list"
  mb_tools :: "ToolSchema list"

record ChatBody =
  cb_model :: string
  cb_messages :: "ChatMessage list"
  cb_tools :: "OpenAiTool list"
  cb_tool_choice :: string
  cb_max_tokens :: nat

datatype RequestBody = MessagesRequest MessagesBody | ChatRequest ChatBody

record HttpRequest =
  req_url :: string
  req_method :: string
  req_headers :: "(string \<times> string) list"
  req_body :: RequestBody

record Choice =
  ch_message :: "ChatMessage option"

text \<open>The parsed response body: \<^verbatim>\<open>choices\<close> of one family, \<^verbatim>\<open>content\<close> of the other.\<close>

record ApiResponse =
  choices :: "Choice list option"
  resp_content :: "ContentBlock list option"

record HttpResponse =
  ok :: bool
  status :: nat
  text_body :: string
  json_body :: "error + ApiResponse"

text \<open>One \<^verbatim>\<open>fetch\<close>: rejected with an error, or resolved with a response.\<close>

type_synonym fetch = "HttpRequest \<Rightarrow> error + HttpResponse"

section \<open>Encoding a request\<close>

definition tool_call_of :: "'w env \<Rightarrow> ContentBlock \<Rightarrow> ToolCall" where
  "tool_call_of env tool =
     \<lparr>tc_id = blk_id tool, tc_type = ''function'',
      tc_function = \<lparr>fc_name = blk_name tool,
                      arguments = map_option (JSON_stringify env) (blk_input tool)\<rparr>\<rparr>"

text \<open>The chat message built for an assistant message whose content is an array.\<close>

definition assistantMsg :: "'w env \<Rightarrow> ContentBlock list \<Rightarrow> ChatMessage" where
  "assistantMsg env bs =
     (let textContent = find (\<lambda>b. blk_type b = ''text'') bs;
          toolUses = filter (\<lambda>b. blk_type b = ''tool_use'') bs
      in \<lparr>cm_role = ''assistant'',
          cm_content = or_null (Option.bind textContent blk_text),
          tool_calls =
            (if length toolUses > 0 then Some (map (tool_call_of env) toolUses) else None),
          tool_call_id = None\<rparr>)"

text \<open>
  One pass of the loop that converts the history into chat messages: what it pushes
  for one message of the history.
\<close>

definition encode_message :: "'w env \<Rightarrow> Message \<Rightarrow> ChatMessage list" where
  "encode_message env msg =
     (case role msg of
        User \<Rightarrow>
          (case content msg of
             Blocks bs \<Rightarrow>
               [\<lparr>cm_role = ''tool'',
                 cm_content = Some (JSON_stringify env (JArr (map json_of_block bs))),
                 tool_calls = None,
                 tool_call_id =
                   Some (or_else (case bs of [] \<Rightarrow> None | b # _ \<Rightarrow> blk_tool_use_id b)
                           ''unknown'')\<rparr>]
           | Text t \<Rightarrow>
               [\<lparr>cm_role = ''user'', cm_content = Some t, tool_calls = None,
                 tool_call_id = None\<rparr>])
      | Assistant \<Rightarrow>
          (case content msg of
             Blocks bs \<Rightarrow> [assistantMsg env bs]
           | Text t \<Rightarrow>
               [\<lparr>cm_role = ''assistant'', cm_content = Some t, tool_calls = None,
                 tool_call_id = None\<rparr>])
      | System \<Rightarrow> [])"

definition openAiMessages :: "'w env \<Rightarrow> Message list \<Rightarrow> string \<Rightarrow> ChatMessage list" where
  "openAiMessages env msgs systemPrompt =
     \<lparr>cm_role = ''system'', cm_content = Some systemPrompt, tool_calls = None,
      tool_call_id = None\<rparr>
     # concat (map (encode_message env) msgs)"

definition openAiTools :: "'w env \<Rightarrow> OpenAiTool list" where
  "openAiTools env =
     map (\<lambda>tool. \<lparr>ot_type = ''function'',
                   ot_function = \<lparr>fs_name = ts_name tool, fs_description = ts_description tool,
                                   fs_parameters = input_schema tool\<rparr>\<rparr>)
       (makeSchema env)"

definition build_request :: "'w env \<Rightarrow> Message list \<Rightarrow> string \<Rightarrow> ApiConfig \<Rightarrow> HttpRequest" where
  "build_request env msgs systemPrompt config =
     (if provider config = anthropic \<or> provider config = openrouter then
        \<lparr>req_url = url config, req_method = ''POST'',
         req_headers =
           [(''Content-Type'', ''application/json''), (''anthropic-version'', ''2023-06-01''),
            (if provider config = openrouter then (''Authorization'', ''Bearer '' @ key config)
             else (''x-api-key'', key config))],
         req_body = MessagesRequest
           \<lparr>mb_model = model config, mb_max_tokens = 1600, mb_system = systemPrompt,
            mb_messages = msgs, mb_tools = makeSchema env\<rparr>\<rparr>
      else
        \<lparr>req_url = url config, req_method = ''POST'',
         req_headers =
           [(''Content-Type'', ''application/json''),
            (''Authorization'', ''Bearer '' @ key config)],
         req_body = ChatRequest
           \<lparr>cb_model = model config, cb_messages = openAiMessages env msgs systemPrompt,
            cb_tools = openAiTools env, cb_tool_choice = ''auto'', cb_max_tokens = 1600\<rparr>\<rparr>)"

text \<open>\<^verbatim>\<open>callApi\<close>: the request is sent once; a status that is not a success is thrown.\<close>

definition callApi ::
  "'w env \<Rightarrow> fetch \<Rightarrow> Message list \<Rightarrow> string \<Rightarrow> ApiConfig \<Rightarrow> error + ApiResponse" where
  "callApi env fetch msgs systemPrompt config =
     (case fetch (build_request env msgs systemPrompt config) of
        Inl e \<Rightarrow> Inl e
      | Inr response \<Rightarrow>
          if \<not> ok response
          then Inl (Error (''API error: '' @ string_of_nat (status response) @ '' - ''
                           @ text_body response))
          else json_body response)"

section \<open>Decoding a response\<close>

text \<open>\<^verbatim>\<open>JSON.parse(undefined)\<close> parses the text \<^verbatim>\<open>undefined\<close>.\<close>

definition decode_tool_call :: "'w env \<Rightarrow> ToolCall \<Rightarrow> error + ContentBlock" where
  "decode_tool_call env toolCall =
     (case JSON_parse env (case arguments (tc_function toolCall) of
                             None \<Rightarrow> ''undefined'' | Some a \<Rightarrow> a) of
        Inl e \<Rightarrow> Inl e
      | Inr v \<Rightarrow> Inr (tool_use_block (tc_id toolCall) (fc_name (tc_function toolCall)) (Some v)))"

fun decode_tool_calls :: "'w env \<Rightarrow> ToolCall list \<Rightarrow> error + ContentBlock list" where
  "decode_tool_calls env [] = Inr []"
| "decode_tool_calls env (toolCall # rest) =
     (case decode_tool_call env toolCall of
        Inl e \<Rightarrow> Inl e
      | Inr b \<Rightarrow>
          (case decode_tool_calls env rest of
             Inl e \<Rightarrow> Inl e
           | Inr bs \<Rightarrow> Inr (b # bs)))"

definition decode_response :: "'w env \<Rightarrow> ApiConfig \<Rightarrow> ApiResponse \<Rightarrow> error + ContentBlock list" where
  "decode_response env config response =
     (if provider config = groq then
        (let choice = (case choices response of
                         None \<Rightarrow> None | Some [] \<Rightarrow> None | Some (c # _) \<Rightarrow> Some c);
             msg = Option.bind choice ch_message;
             texts = (case or_null (Option.bind msg cm_content) of
                        None \<Rightarrow> [] | Some t \<Rightarrow> [text_block t])
         in case Option.bind msg tool_calls of
              None \<Rightarrow> Inr texts
            | Some tcs \<Rightarrow>
                (case decode_tool_calls env tcs of
                   Inl e \<Rightarrow> Inl e
                 | Inr bs \<Rightarrow> Inr (texts @ bs)))
      else Inr (case resp_content response of None \<Rightarrow> [] | Some bs \<Rightarrow> bs))"

section \<open>The agent loop\<close>

text \<open>
  The loop owns the history and acts on the world through the tools. The trace
  records, in the order they happen, the calls of \<^verbatim>\<open>callApi\<close> (with the history
  passed), the tool runs, the pushes onto the history, the clearing of the history and
  the errors printed by the \<^verbatim>\<open>catch\<close>.
\<close>

datatype event =
    ApiCall "Message list"
  | ToolRun string json
  | Pushed Message
  | Cleared
  | Reported string

record 'w state =
  messages :: "Message list"
  world :: 'w
  trace :: "event list"

definition push :: "Message \<Rightarrow> 'w state \<Rightarrow> 'w state" where
  "push m s = s\<lparr>messages := messages s @ [m], trace := trace s @ [Pushed m]\<rparr>"

definition toolName_of :: "ContentBlock \<Rightarrow> string" where
  "toolName_of block = or_else (blk_name block) ''''"

definition toolArgs_of :: "ContentBlock \<Rightarrow> json" where
  "toolArgs_of block =
     (case blk_input block of
        None \<Rightarrow> JObj []
      | Some v \<Rightarrow> if truthy (Some v) then v else JObj [])"

text \<open>
  The \<^verbatim>\<open>for\<close> loop over \<^verbatim>\<open>contentBlocks\<close>, with \<^verbatim>\<open>toolResults\<close> as accumulator.
  A text block is only printed. For a tool use, the preview of the first argument is
  computed (it can throw), then the tool runs and its result is collected.
\<close>

fun dispatch ::
  "'w env \<Rightarrow> ContentBlock list \<Rightarrow> ContentBlock list \<Rightarrow> 'w state \<Rightarrow>
   (error + ContentBlock list) \<times> 'w state" where
  "dispatch env [] toolResults s = (Inr toolResults, s)"
| "dispatch env (block # rest) toolResults s =
     (if blk_type block = ''tool_use'' then
        (let toolName = toolName_of block; toolArgs = toolArgs_of block in
         case argPreview env toolArgs of
           Inl e \<Rightarrow> (Inl e, s)
         | Inr preview \<Rightarrow>
             (case runTool env toolName toolArgs (world s) of
                (result, w') \<Rightarrow>
                  dispatch env rest (toolResults @ [tool_result_block (blk_id block) result])
                    (s\<lparr>world := w', trace := trace s @ [ToolRun toolName toolArgs]\<rparr>)))
      else dispatch env rest toolResults s)"

text \<open>
  One pass of the inner \<^verbatim>\<open>while (true)\<close>: \<open>Inr True\<close> goes round again, \<open>Inr False\<close>
  is the \<^verbatim>\<open>break\<close>, \<open>Inl\<close> an error thrown out of the loop.
\<close>

definition model_turn ::
  "'w env \<Rightarrow> ApiConfig \<Rightarrow> string \<Rightarrow> fetch \<Rightarrow> 'w state \<Rightarrow> (error + bool) \<times> 'w state" where
  "model_turn env config systemPrompt fetch s =
     (let s1 = s\<lparr>trace := trace s @ [ApiCall (messages s)]\<rparr> in
      case callApi env fetch (messages s) systemPrompt config of
        Inl e \<Rightarrow> (Inl e, s1)
      | Inr response \<Rightarrow>
          (case decode_response env config response of
             Inl e \<Rightarrow> (Inl e, s1)
           | Inr contentBlocks \<Rightarrow>
               (case dispatch env contentBlocks [] s1 of
                  (Inl e, s2) \<Rightarrow> (Inl e, s2)
                | (Inr toolResults, s2) \<Rightarrow>
                    (let s3 = push \<lparr>role = Assistant, content = Blocks contentBlocks\<rparr> s2 in
                     if length toolResults = 0 then (Inr False, s3)
                     else (Inr True, push \<lparr>role = User, content = Blocks toolResults\<rparr> s3)))))"

text \<open>
  The inner loop against a script of fetches, one per request. It has no bound of its
  own: when the script is used up the loop is still waiting for a response.
\<close>

datatype loop_exit = Done | Thrown error | Waiting

fun agentic_loop ::
  "'w env \<Rightarrow> ApiConfig \<Rightarrow> string \<Rightarrow> fetch list \<Rightarrow> 'w state \<Rightarrow>
   loop_exit \<times> fetch list \<times> 'w state" where
  "agentic_loop env config systemPrompt [] s = (Waiting, [], s)"
| "agentic_loop env config systemPrompt (fetch # script) s =
     (case model_turn env config systemPrompt fetch s of
        (Inl e, s') \<Rightarrow> (Thrown e, script, s')
      | (Inr False, s') \<Rightarrow> (Done, script, s')
      | (Inr True, s') \<Rightarrow> agentic_loop env config systemPrompt script s')"

text \<open>
  One pass of the outer loop, for one line returned by \<^verbatim>\<open>getUserInput\<close>: where the
  program is afterwards.
\<close>

datatype control = AwaitingUserInput | Exited | Blocked

definition main_iteration ::
  "'w env \<Rightarrow> ApiConfig \<Rightarrow> string \<Rightarrow> string \<Rightarrow> fetch list \<Rightarrow> 'w state \<Rightarrow>
   control \<times> fetch list \<times> 'w state" where
  "main_iteration env config systemPrompt userInput script s =
     (if userInput = [] then (AwaitingUserInput, script, s)
      else if userInput = ''/q'' \<or> userInput = ''exit'' then (Exited, script, s)
      else if userInput = ''/c''
      then (AwaitingUserInput, script, s\<lparr>messages := [], trace := trace s @ [Cleared]\<rparr>)
      else
        (case agentic_loop env config systemPrompt script
                (push \<lparr>role = User, content = Text userInput\<rparr> s) of
           (Done, script', s') \<Rightarrow> (AwaitingUserInput, script', s')
         | (Waiting, script', s') \<Rightarrow> (Blocked, script', s')
         | (Thrown err, script', s') \<Rightarrow>
             if str_includes (message err) ''SIGINT'' then (Exited, script', s')
             else (AwaitingUserInput, script',
                   s'\<lparr>trace := trace s' @ [Reported (message err)]\<rparr>)))"




section \<open>Notions of the specification\<close>

text \<open>
  A provider response that carries back the chat message encoded for an assistant
  turn, and the decoding of it: the round trip of one assistant message through the
  chat-with-tool-calls shape.
\<close>

definition echo_response :: "ChatMessage \<Rightarrow> ApiResponse" where
  "echo_response m = \<lparr>choices = Some [\<lparr>ch_message = Some m\<rparr>], resp_content = None\<rparr>"

definition round_trip :: "'w env \<Rightarrow> ApiConfig \<Rightarrow> ContentBlock list \<Rightarrow> error + ContentBlock list" where
  "round_trip env config bs = decode_response env config (echo_response (assistantMsg env bs))"

definition is_tool_use :: "ContentBlock \<Rightarrow> bool" where
  "is_tool_use b = (blk_type b = ''tool_use'')"

definition is_text :: "ContentBlock \<Rightarrow> bool" where
  "is_text b = (blk_type b = ''text'')"

text \<open>
  The specification's round-trip property: the decoded blocks are the same set of text
  and tool-use blocks as the original, and the tool uses come in the original order.
\<close>

definition same_blocks :: "ContentBlock list \<Rightarrow> error + ContentBlock list \<Rightarrow> bool" where
  "same_blocks original decoded =
     (case decoded of
        Inl e \<Rightarrow> False
      | Inr bs \<Rightarrow>
          set (filter (\<lambda>b. is_text b \<or> is_tool_use b) bs)
            = set (filter (\<lambda>b. is_text b \<or> is_tool_use b) original)
          \<and> filter is_tool_use bs = filter is_tool_use original)"

text \<open>
  The tool results the specification asks for: one per tool-use block, in the order of
  the blocks, each carrying the id of its block and the result of running the tool in
  the world the earlier runs left.
\<close>

fun results_in_order :: "'w env \<Rightarrow> ContentBlock list \<Rightarrow> 'w \<Rightarrow> ContentBlock list" where
  "results_in_order env [] w = []"
| "results_in_order env (b # bs) w =
     (case runTool env (toolName_of b) (toolArgs_of b) w of
        (result, w') \<Rightarrow> tool_result_block (blk_id b) result # results_in_order env bs w')"

definition run_event :: "ContentBlock \<Rightarrow> event" where
  "run_event b = ToolRun (toolName_of b) (toolArgs_of b)"

text \<open>
  The specification's order of a turn: no tool runs before the assistant message has
  been pushed, that is, no tool run is followed by the push of an assistant message.
\<close>

fun is_assistant_push :: "event \<Rightarrow> bool" where
  "is_assistant_push (Pushed m) = (role m = Assistant)"
| "is_assistant_push _ = False"

fun pushed_before_tools :: "event list \<Rightarrow> bool" where
  "pushed_before_tools [] = True"
| "pushed_before_tools (ToolRun n a # es) =
     (\<not> list_ex is_assistant_push es \<and> pushed_before_tools es)"
| "pushed_before_tools (e # es) = pushed_before_tools es"

text \<open>The declared type of a parameter without its trailing optionality marker.\<close>

definition base_type :: "string \<Rightarrow> string" where
  "base_type paramType = (if endsWith paramType ''?'' then butlast paramType else paramType)"

definition is_command :: "string \<Rightarrow> bool" where
  "is_command userInput =
     (userInput = [] \<or> userInput = ''/q'' \<or> userInput = ''exit'' \<or> userInput = ''/c'')"

section \<open>A concrete instance of the collaborators\<close>

text \<open>
  For concrete runs: the world is a list of files with their contents; the codec
  knows the empty object and \<^verbatim>\<open>null\<close>; the tools that are not modelled return a
  fixed text.
\<close>

definition demo_readFileSync :: "(string \<times> string) list \<Rightarrow> json option \<Rightarrow> error + string" where
  "demo_readFileSync w p =
     (case p of
        Some (JStr path) \<Rightarrow>
          (case map_of w path of
             Some t \<Rightarrow> Inr t
           | None \<Rightarrow> Inl (Error (''ENOENT: no such file or directory, open '' @ path)))
      | _ \<Rightarrow> Inl (Error ''The path argument must be of type string''))"

definition demo_writeFileSync ::
  "(string \<times> string) list \<Rightarrow> json option \<Rightarrow> json option \<Rightarrow>
   error option \<times> (string \<times> string) list" where
  "demo_writeFileSync w p d =
     (case (p, d) of
        (Some (JStr path), Some (JStr data)) \<Rightarrow> (None, AList.update path data w)
      | _ \<Rightarrow> (Some (Error ''The argument must be of type string''), w))"

definition demo_env :: "(string \<times> string) list env" where
  "demo_env =
     \<lparr>JSON_stringify = (\<lambda>v. if v = JObj [] then ''{}'' else ''null''),
      JSON_parse = (\<lambda>s. if s = ''{}'' then Inr (JObj [])
                         else if s = ''null'' then Inr JNull
                         else Inl (Error ''Unexpected token'')),
      ToString = (\<lambda>v. Inr ''[object Object]''),
      readFileSync = demo_readFileSync,
      writeFileSync = demo_writeFileSync,
      readFile = (\<lambda>args w. (map_sum id id (demo_readFileSync w (get_prop args ''path'')), w)),
      globFiles = (\<lambda>args w. (Inr ''none'', w)),
      grepFiles = (\<lambda>args w. (Inr ''none'', w)),
      runBash = (\<lambda>args w. (Inr ''(empty)'', w)),
      argPreview = (\<lambda>args. Inr '''')\<rparr>"

definition demo_config :: "Provider \<Rightarrow> ApiConfig" where
  "demo_config p = \<lparr>url = ''https://example.invalid/v1'', key = ''k'', model = ''m'', provider = p\<rparr>"

definition demo_state :: "(string \<times> string) list state" where
  "demo_state = \<lparr>messages = [], world = [(''a.txt'', ''xx'')], trace = []\<rparr>"

definition demo_fetch_ok :: "ApiResponse \<Rightarrow> fetch" where
  "demo_fetch_ok body request =
     Inr \<lparr>ok = True, status = 200, text_body = '''', json_body = Inr body\<rparr>"

definition demo_fetch_status :: "nat \<Rightarrow> string \<Rightarrow> fetch" where
  "demo_fetch_status code body request =
     Inr \<lparr>ok = False, status = code, text_body = body,
          json_body = Inl (Error ''Unexpected token'')\<rparr>"

definition demo_write_use :: ContentBlock where
  "demo_write_use =
     tool_use_block (Some ''t1'') (Some ''write'')
       (Some (JObj [(''path'', JStr ''b.txt''), (''content'', JStr ''hi'')]))"

definition demo_tool_response :: ApiResponse where
  "demo_tool_response = \<lparr>choices = None, resp_content = Some [demo_write_use]\<rparr>"

definition demo_text_response :: ApiResponse where
  "demo_text_response = \<lparr>choices = None, resp_content = Some [text_block ''done'']\<rparr>"

text \<open>
  The same instance with the preview the loop prints,
  \<^verbatim>\<open>String(Object.values(toolArgs)[0] || '').slice(0, 50)\<close>, on an object none of
  whose keys is an array index: a first value that is a string is cut to 50
  characters; a first value that is an object with an own \<^verbatim>\<open>toString\<close> property
  (never callable in parsed JSON) cannot be converted, and \<^verbatim>\<open>String\<close> throws.
\<close>

definition demo_argPreview :: "json \<Rightarrow> error + string" where
  "demo_argPreview toolArgs =
     (case toolArgs of
        JObj ((k, JStr s) # rest) \<Rightarrow> Inr (take 50 s)
      | JObj ((k, JObj kvs) # rest) \<Rightarrow>
          (if map_of kvs ''toString'' = None then Inr ''[object Object]''
           else Inl (Error ''Cannot convert object to primitive value''))
      | _ \<Rightarrow> Inr '''')"

definition demo_env_preview :: "(string \<times> string) list env" where
  "demo_env_preview = demo_env\<lparr>argPreview := demo_argPreview\<rparr>"

definition demo_bad_preview_use :: ContentBlock where
  "demo_bad_preview_use =
     tool_use_block (Some ''t2'') (Some ''read'')
       (Some (JObj [(''path'', JObj [(''toString'', JNum 1)])]))"

definition demo_bad_preview_response :: ApiResponse where
  "demo_bad_preview_response =
     \<lparr>choices = None, resp_content = Some [demo_write_use, demo_bad_preview_use]\<rparr>"

section \<open>The tool dispatch and one turn of the model\<close>

lemma dispatch_Inr:
  "dispatch env bs acc s = (Inr rs, s') \<Longrightarrow>
     rs = acc @ results_in_order env (filter is_tool_use bs) (world s) \<and>
     trace s' = trace s @ map run_event (filter is_tool_use bs) \<and>
     messages s' = messages s"
proof (induction bs arbitrary: acc s)
  case Nil
  then show ?case by simp
next
  case (Cons b bs)
  show ?case
  proof (cases "blk_type b = ''tool_use''")
    case False
    with Cons show ?thesis by (simp add: is_tool_use_def)
  next
    case True
    with Cons.prems obtain p where p: "argPreview env (toolArgs_of b) = Inr p"
      by (cases "argPreview env (toolArgs_of b)") (auto simp: Let_def)
    obtain r w' where r: "runTool env (toolName_of b) (toolArgs_of b) (world s) = (r, w')"
      by (cases "runTool env (toolName_of b) (toolArgs_of b) (world s)")
    let ?s1 = "s\<lparr>world := w', trace := trace s @ [ToolRun (toolName_of b) (toolArgs_of b)]\<rparr>"
    from Cons.prems True p r
    have "dispatch env bs (acc @ [tool_result_block (blk_id b) r]) ?s1 = (Inr rs, s')"
      by (simp add: Let_def)
    from Cons.IH [OF this] True r show ?thesis
      by (simp add: is_tool_use_def run_event_def)
  qed
qed


lemma results_in_order_ids:
  "map blk_tool_use_id (results_in_order env bs w) = map blk_id bs"
  by (induction bs arbitrary: w) (auto simp: tool_result_block_def split: prod.splits)

lemma results_in_order_types:
  "r \<in> set (results_in_order env bs w) \<Longrightarrow> blk_type r = ''tool_result''"
  by (induction bs arbitrary: w) (auto simp: tool_result_block_def split: prod.splits)

lemma results_in_order_length:
  "length (results_in_order env bs w) = length bs"
  by (induction bs arbitrary: w) (auto split: prod.splits)

lemma model_turn_Inr:
  assumes "callApi env fetch (messages s) systemPrompt config = Inr response"
    and "decode_response env config response = Inr contentBlocks"
    and "model_turn env config systemPrompt fetch s = (Inr again, s')"
  shows "messages s' = messages s
           @ \<lparr>role = Assistant, content = Blocks contentBlocks\<rparr>
           # (if again
              then [\<lparr>role = User, content = Blocks
                      (results_in_order env (filter is_tool_use contentBlocks) (world s))\<rparr>]
              else [])"
    and "trace s' = trace s @ ApiCall (messages s)
           # map run_event (filter is_tool_use contentBlocks)
           @ Pushed \<lparr>role = Assistant, content = Blocks contentBlocks\<rparr>
           # (if again
              then [Pushed \<lparr>role = User, content = Blocks
                      (results_in_order env (filter is_tool_use contentBlocks) (world s))\<rparr>]
              else [])"
    and "again \<longleftrightarrow> filter is_tool_use contentBlocks \<noteq> []"
proof -
  let ?s1 = "s\<lparr>trace := trace s @ [ApiCall (messages s)]\<rparr>"
  obtain res s2 where d: "dispatch env contentBlocks [] ?s1 = (res, s2)"
    by (cases "dispatch env contentBlocks [] ?s1")
  from assms d obtain rs where res: "res = Inr rs"
    by (cases res) (auto simp: model_turn_def Let_def)
  from dispatch_Inr [OF d [unfolded res]]
  have rs: "rs = results_in_order env (filter is_tool_use contentBlocks) (world s)"
    and tr: "trace s2 = trace s @ ApiCall (messages s) # map run_event (filter is_tool_use contentBlocks)"
    and ms: "messages s2 = messages s"
    by simp_all
  have len: "(length rs = 0) = (filter is_tool_use contentBlocks = [])"
    using rs results_in_order_length [of env "filter is_tool_use contentBlocks" "world s"] by simp
  from assms d res have s': "s' = (if length rs = 0 then push \<lparr>role = Assistant, content = Blocks contentBlocks\<rparr> s2
      else push \<lparr>role = User, content = Blocks rs\<rparr> (push \<lparr>role = Assistant, content = Blocks contentBlocks\<rparr> s2))"
    and ag: "again = (length rs \<noteq> 0)"
    by (auto simp: model_turn_def Let_def split: if_splits)
  show "again \<longleftrightarrow> filter is_tool_use contentBlocks \<noteq> []" using ag len by simp
  show "messages s' = messages s
           @ \<lparr>role = Assistant, content = Blocks contentBlocks\<rparr>
           # (if again
              then [\<lparr>role = User, content = Blocks
                      (results_in_order env (filter is_tool_use contentBlocks) (world s))\<rparr>]
              else [])"
    using s' ag ms rs by (simp add: push_def)
  show "trace s' = trace s @ ApiCall (messages s)
           # map run_event (filter is_tool_use contentBlocks)
           @ Pushed \<lparr>role = Assistant, content = Blocks contentBlocks\<rparr>
           # (if again
              then [Pushed \<lparr>role = User, content = Blocks
                      (results_in_order env (filter is_tool_use contentBlocks) (world s))\<rparr>]
              else [])"
    using s' ag tr rs by (simp add: push_def)
qed

lemma dispatch_no_tool_use:
  "filter is_tool_use bs = [] \<Longrightarrow> dispatch env bs acc s = (Inr acc, s)"
  by (induction bs arbitrary: acc s) (auto simp: is_tool_use_def split: if_splits)





lemma or_null_idem: "or_null (or_null x) = or_null x"
  by (cases x) auto

lemma decode_encoded_tool_calls:
  "\<forall>b \<in> set tus. \<exists>v. blk_input b = Some v \<and> JSON_parse env (JSON_stringify env v) = Inr v \<Longrightarrow>
   decode_tool_calls env (map (tool_call_of env) tus)
     = Inr (map (\<lambda>b. tool_use_block (blk_id b) (blk_name b) (blk_input b)) tus)"
  by (induction tus) (auto simp: decode_tool_call_def tool_call_of_def)

lemma editFile_cases:
  "editFile env args w = (res, w') \<Longrightarrow>
     res = Inr ''ok'' \<or> w' = w \<or>
     (\<exists>d e. writeFileSync env w (get_prop args ''path'') (Some (JStr d)) = (Some e, w') \<and> res = Inl e)"
  by (auto simp: editFile_def Let_def
      split: sum.splits option.splits json.splits if_splits prod.splits)

text \<open>The inner loop of \<^verbatim>\<open>makeSchema\<close> on any parameter table.\<close>

lemma schema_params_required:
  "snd (schema_params ps (props, req))
     = req @ map fst (filter (\<lambda>(paramName, paramType). \<not> endsWith paramType ''?'') ps)"
  by (induction ps arbitrary: props req) (auto simp: Let_def)

lemma schema_params_properties:
  "distinct (map fst ps) \<Longrightarrow> (paramName, paramType) \<in> set ps \<Longrightarrow>
   map_of (fst (schema_params ps (props, req))) paramName
     = Some \<lparr>ps_type = (if replace paramType ''?'' '''' = ''number'' then ''integer''
                         else replace paramType ''?'' '''')\<rparr>"
proof (induction ps arbitrary: props req)
  case Nil
  then show ?case by simp
next
  case (Cons a ps)
  obtain p t where a: "a = (p, t)" by (cases a)
  have keep: "paramName \<notin> fst ` set qs \<Longrightarrow>
      map_of (fst (schema_params qs (props', req'))) paramName = map_of props' paramName"
    for qs props' req'
    by (induction qs arbitrary: props' req') (auto simp: Let_def update_conv')
  show ?case
  proof (cases "(paramName, paramType) = (p, t)")
    case True
    with Cons.prems a have "paramName \<notin> fst ` set ps" by force
    from keep [OF this] True a show ?thesis
      by (simp add: Let_def update_conv')
  next
    case False
    with Cons a show ?thesis by (auto simp: Let_def)
  qed
qed

lemmas demo_defs = demo_env_def demo_config_def demo_state_def demo_fetch_ok_def
  demo_fetch_status_def demo_write_use_def demo_tool_response_def demo_text_response_def
  demo_readFileSync_def demo_writeFileSync_def

lemmas run_defs = model_turn_def callApi_def decode_response_def runTool_def call_tool_def
  TOOLS_def writeFile_def push_def toolName_of_def toolArgs_of_def tool_use_block_def
  tool_result_block_def text_block_def Let_def is_tool_use_def is_text_def run_event_def

section \<open>The claims\<close>

text \<open>
  C1, as amended. The claim says that every assistant message survives encoding
  into the chat-with-tool-calls shape and decoding of the response built from it with
  the same set of text and tool-use blocks. The code keeps less: decoding yields one
  text block with the text of the first text block, and only when that text is not
  empty, followed by every tool-use block of the original in the original order, each
  with its id, name and input (the JSON codec returning every input it wrote). A
  first text block that is empty and every later text block are dropped, and the text
  block comes first wherever it stood.
\<close>

theorem chat_round_trip_keeps_tool_uses:
  assumes "provider config = groq"
    and "\<forall>b \<in> set bs. is_tool_use b \<longrightarrow>
           (\<exists>v. blk_input b = Some v \<and> JSON_parse env (JSON_stringify env v) = Inr v)"
  shows "round_trip env config bs =
           Inr ((case or_null (Option.bind (find is_text bs) blk_text) of
                   None \<Rightarrow> [] | Some t \<Rightarrow> [text_block t])
                @ map (\<lambda>b. tool_use_block (blk_id b) (blk_name b) (blk_input b))
                    (filter is_tool_use bs))"
proof -
  let ?tus = "filter is_tool_use bs"
  from assms(2) have "\<forall>b \<in> set ?tus. \<exists>v. blk_input b = Some v
      \<and> JSON_parse env (JSON_stringify env v) = Inr v"
    by simp
  from decode_encoded_tool_calls [OF this]
  have d: "decode_tool_calls env (map (tool_call_of env) ?tus)
     = Inr (map (\<lambda>b. tool_use_block (blk_id b) (blk_name b) (blk_input b)) ?tus)" .
  have t: "find (\<lambda>b. blk_type b = ''text'') bs = find is_text bs"
    by (simp add: is_text_def [abs_def])
  have f: "filter (\<lambda>b. blk_type b = ''tool_use'') bs = ?tus"
    by (simp add: is_tool_use_def [abs_def])
  show ?thesis
  proof (cases "?tus = []")
    case True
    with assms(1) t f show ?thesis
      by (simp add: round_trip_def decode_response_def echo_response_def assistantMsg_def
          Let_def or_null_idem)
  next
    case False
    with assms(1) t f d show ?thesis
      by (simp add: round_trip_def decode_response_def echo_response_def assistantMsg_def
          Let_def or_null_idem)
  qed
qed

theorem chat_round_trip_keeps_tool_uses_witness:
  "provider (demo_config groq) = groq
   \<and> JSON_parse demo_env (JSON_stringify demo_env (JObj [])) = Inr (JObj [])
   \<and> round_trip demo_env (demo_config groq)
        [tool_use_block (Some ''t1'') (Some ''bash'') (Some (JObj [])),
         text_block ''first'',
         tool_use_block (Some ''t2'') (Some ''glob'') (Some (JObj []))]
      = Inr [text_block ''first'',
             tool_use_block (Some ''t1'') (Some ''bash'') (Some (JObj [])),
             tool_use_block (Some ''t2'') (Some ''glob'') (Some (JObj []))]"
proof -
  let ?bs = "[tool_use_block (Some ''t1'') (Some ''bash'') (Some (JObj [])),
              text_block ''first'',
              tool_use_block (Some ''t2'') (Some ''glob'') (Some (JObj []))]"
  have p: "provider (demo_config groq) = groq"
    by (simp add: demo_config_def)
  have j: "JSON_parse demo_env (JSON_stringify demo_env (JObj [])) = Inr (JObj [])"
    by (simp add: demo_env_def)
  have h: "\<forall>b \<in> set ?bs. is_tool_use b \<longrightarrow>
      (\<exists>v. blk_input b = Some v \<and> JSON_parse demo_env (JSON_stringify demo_env v) = Inr v)"
    using j by (simp add: tool_use_block_def text_block_def is_tool_use_def)
  from chat_round_trip_keeps_tool_uses [OF p h] p j show ?thesis
    by (simp add: tool_use_block_def text_block_def is_tool_use_def is_text_def)
qed

theorem chat_round_trip_counterexample:
  "\<not> same_blocks [text_block '''']
        (round_trip demo_env (demo_config groq) [text_block ''''])
   \<and> \<not> same_blocks
        [text_block ''a'', tool_use_block (Some ''t1'') (Some ''bash'') (Some (JObj [])),
         text_block ''b'']
        (round_trip demo_env (demo_config groq)
           [text_block ''a'', tool_use_block (Some ''t1'') (Some ''bash'') (Some (JObj [])),
            text_block ''b''])"
proof
  show "\<not> same_blocks [text_block '''']
        (round_trip demo_env (demo_config groq) [text_block ''''])"
    by (simp add: same_blocks_def round_trip_def decode_response_def echo_response_def
        assistantMsg_def demo_config_def text_block_def is_tool_use_def is_text_def Let_def)
next
  let ?tu = "tool_use_block (Some ''t1'') (Some ''bash'') (Some (JObj []))"
  let ?orig = "[text_block ''a'', ?tu, text_block ''b'']"
  have r: "round_trip demo_env (demo_config groq) ?orig = Inr [text_block ''a'', ?tu]"
    by (simp add: round_trip_def decode_response_def echo_response_def assistantMsg_def
        tool_call_of_def decode_tool_call_def demo_env_def demo_config_def
        tool_use_block_def text_block_def Let_def)
  have lost: "text_block ''b'' \<in> set (filter (\<lambda>b. is_text b \<or> is_tool_use b) ?orig)"
    by (simp add: text_block_def is_text_def)
  have gone: "text_block ''b''
      \<notin> set (filter (\<lambda>b. is_text b \<or> is_tool_use b) [text_block ''a'', ?tu])"
    by (simp add: text_block_def tool_use_block_def)
  from lost gone have "set (filter (\<lambda>b. is_text b \<or> is_tool_use b) [text_block ''a'', ?tu])
      \<noteq> set (filter (\<lambda>b. is_text b \<or> is_tool_use b) ?orig)"
    by blast
  then show "\<not> same_blocks ?orig (round_trip demo_env (demo_config groq) ?orig)"
    unfolding r same_blocks_def by simp
qed

text \<open>
  In a turn that completes, the tool results are exactly those of running the
  tools of the tool-use blocks one after the other in the order of the response: one
  result per tool-use block, at the same position, with \<open>tool_use_id\<close> equal to the
  block's id and nothing else in the list; they are pushed as one user message in
  that turn, and the tool runs recorded in the turn are those of the tool-use blocks,
  in order.
\<close>

theorem tool_results_correlate:
  assumes "callApi env fetch (messages s) systemPrompt config = Inr response"
    and "decode_response env config response = Inr contentBlocks"
    and "model_turn env config systemPrompt fetch s = (Inr again, s')"
  shows "let toolResults = results_in_order env (filter is_tool_use contentBlocks) (world s) in
           map blk_tool_use_id toolResults = map blk_id (filter is_tool_use contentBlocks)
         \<and> list_all (\<lambda>r. blk_type r = ''tool_result'') toolResults
         \<and> messages s' = messages s
              @ \<lparr>role = Assistant, content = Blocks contentBlocks\<rparr>
              # (if toolResults = [] then []
                 else [\<lparr>role = User, content = Blocks toolResults\<rparr>])
         \<and> filter (\<lambda>e. case e of ToolRun n a \<Rightarrow> True | _ \<Rightarrow> False)
              (drop (length (trace s)) (trace s'))
              = map run_event (filter is_tool_use contentBlocks)"
proof -
  let ?rs = "results_in_order env (filter is_tool_use contentBlocks) (world s)"
  have e: "(?rs = []) = (\<not> again)"
    using model_turn_Inr(3) [OF assms]
      results_in_order_length [of env "filter is_tool_use contentBlocks" "world s"]
    by (metis length_0_conv)
  have f: "filter (\<lambda>e. case e of ToolRun n a \<Rightarrow> True | _ \<Rightarrow> False) (map run_event bs)
      = map run_event bs" for bs
    by (induction bs) (simp_all add: run_event_def)
  have "drop (length (trace s)) (trace s') = ApiCall (messages s)
           # map run_event (filter is_tool_use contentBlocks)
           @ Pushed \<lparr>role = Assistant, content = Blocks contentBlocks\<rparr>
           # (if again then [Pushed \<lparr>role = User, content = Blocks ?rs\<rparr>] else [])"
    using model_turn_Inr(2) [OF assms] by simp
  then have t: "filter (\<lambda>e. case e of ToolRun n a \<Rightarrow> True | _ \<Rightarrow> False)
      (drop (length (trace s)) (trace s')) = map run_event (filter is_tool_use contentBlocks)"
    by (simp add: f)
  show ?thesis
    using model_turn_Inr(1) [OF assms] e t
    by (simp add: Let_def results_in_order_ids list_all_iff results_in_order_types)
qed

theorem tool_results_correlate_witness:
  "callApi demo_env (demo_fetch_ok demo_tool_response) (messages demo_state) ''sys''
      (demo_config anthropic) = Inr demo_tool_response
   \<and> decode_response demo_env (demo_config anthropic) demo_tool_response = Inr [demo_write_use]
   \<and> fst (model_turn demo_env (demo_config anthropic) ''sys''
           (demo_fetch_ok demo_tool_response) demo_state) = Inr True
   \<and> messages (snd (model_turn demo_env (demo_config anthropic) ''sys''
                  (demo_fetch_ok demo_tool_response) demo_state))
      = [\<lparr>role = Assistant, content = Blocks [demo_write_use]\<rparr>,
         \<lparr>role = User, content = Blocks [tool_result_block (Some ''t1'') ''ok'']\<rparr>]"
proof -
  let ?t = "model_turn demo_env (demo_config anthropic) ''sys''
              (demo_fetch_ok demo_tool_response) demo_state"
  have a: "callApi demo_env (demo_fetch_ok demo_tool_response) (messages demo_state) ''sys''
      (demo_config anthropic) = Inr demo_tool_response"
    by (simp add: callApi_def demo_fetch_ok_def)
  have b: "decode_response demo_env (demo_config anthropic) demo_tool_response
      = Inr [demo_write_use]"
    by (simp add: decode_response_def demo_config_def demo_tool_response_def)
  have c: "?t = (Inr True, snd ?t)"
    by (simp add: demo_defs run_defs)
  from tool_results_correlate [OF a b c] a b c show ?thesis
    by (simp add: demo_defs run_defs)
qed

text \<open>
  C2, which the code breaks. The property: every tool-use block of a response gets,
  in the same turn, exactly one tool result carrying its id. The loop over the blocks
  computes the preview of the first argument outside any \<^verbatim>\<open>try\<close>, while the tool
  itself runs inside \<^verbatim>\<open>runTool\<close>'s. On a response with a tool use of \<^verbatim>\<open>write\<close>
  followed by a tool use whose first argument is the object \<^verbatim>\<open>{"toString": 1}\<close>, the
  first tool runs and writes its file, the preview of the second throws, the loop is
  left, and the history receives neither the assistant message nor any tool result.
\<close>

theorem preview_throw_drops_tool_results:
  "model_turn demo_env_preview (demo_config anthropic) ''sys''
     (demo_fetch_ok demo_bad_preview_response) demo_state
   = (Inl (Error ''Cannot convert object to primitive value''),
      demo_state\<lparr>world := [(''a.txt'', ''xx''), (''b.txt'', ''hi'')],
        trace := [ApiCall [], run_event demo_write_use]\<rparr>)
   \<and> messages (snd (model_turn demo_env_preview (demo_config anthropic) ''sys''
                     (demo_fetch_ok demo_bad_preview_response) demo_state)) = []
   \<and> filter is_tool_use [demo_write_use, demo_bad_preview_use]
       = [demo_write_use, demo_bad_preview_use]"
  by (simp add: demo_defs run_defs demo_env_preview_def demo_argPreview_def
      demo_bad_preview_use_def demo_bad_preview_response_def)



text \<open>
  C4, as amended. The claim puts the push of the assistant message before the tool
  runs of the turn. The code pushes it after the loop over the blocks: in a turn that
  completes, the trace of the turn is the call of the API, then the runs of the tools
  of all tool-use blocks in order, then the push of the assistant message, and no
  tool runs after that push.
\<close>

theorem assistant_pushed_after_tools:
  assumes "callApi env fetch (messages s) systemPrompt config = Inr response"
    and "decode_response env config response = Inr contentBlocks"
    and "model_turn env config systemPrompt fetch s = (Inr again, s')"
  shows "\<exists>rest. trace s' = trace s @ ApiCall (messages s)
           # map run_event (filter is_tool_use contentBlocks)
           @ Pushed \<lparr>role = Assistant, content = Blocks contentBlocks\<rparr> # rest
         \<and> \<not> list_ex (\<lambda>e. case e of ToolRun n a \<Rightarrow> True | _ \<Rightarrow> False) rest"
  using model_turn_Inr(2) [OF assms] by auto

theorem assistant_pushed_after_tools_witness:
  "callApi demo_env (demo_fetch_ok demo_tool_response) (messages demo_state) ''sys''
      (demo_config anthropic) = Inr demo_tool_response
   \<and> decode_response demo_env (demo_config anthropic) demo_tool_response = Inr [demo_write_use]
   \<and> fst (model_turn demo_env (demo_config anthropic) ''sys''
           (demo_fetch_ok demo_tool_response) demo_state) = Inr True
   \<and> take 3 (trace (snd (model_turn demo_env (demo_config anthropic) ''sys''
                (demo_fetch_ok demo_tool_response) demo_state)))
      = [ApiCall [], run_event demo_write_use,
         Pushed \<lparr>role = Assistant, content = Blocks [demo_write_use]\<rparr>]"
proof -
  let ?t = "model_turn demo_env (demo_config anthropic) ''sys''
              (demo_fetch_ok demo_tool_response) demo_state"
  have a: "callApi demo_env (demo_fetch_ok demo_tool_response) (messages demo_state) ''sys''
      (demo_config anthropic) = Inr demo_tool_response"
    by (simp add: callApi_def demo_fetch_ok_def)
  have b: "decode_response demo_env (demo_config anthropic) demo_tool_response
      = Inr [demo_write_use]"
    by (simp add: decode_response_def demo_config_def demo_tool_response_def)
  have c: "?t = (Inr True, snd ?t)"
    by (simp add: demo_defs run_defs)
  have u: "is_tool_use demo_write_use"
    by (simp add: is_tool_use_def demo_write_use_def tool_use_block_def)
  from assistant_pushed_after_tools [OF a b c] obtain rest where
    "trace (snd ?t) = trace demo_state @ ApiCall (messages demo_state)
           # map run_event (filter is_tool_use [demo_write_use])
           @ Pushed \<lparr>role = Assistant, content = Blocks [demo_write_use]\<rparr> # rest"
    by blast
  then have "take 3 (trace (snd ?t)) = [ApiCall [], run_event demo_write_use,
         Pushed \<lparr>role = Assistant, content = Blocks [demo_write_use]\<rparr>]"
    by (simp add: u demo_state_def)
  moreover from c have "fst ?t = Inr True"
    by (metis fst_conv)
  ultimately show ?thesis using a b by blast
qed

theorem assistant_pushed_before_tools_counterexample:
  "\<not> pushed_before_tools
        (trace (snd (model_turn demo_env (demo_config anthropic) ''sys''
                       (demo_fetch_ok demo_tool_response) demo_state)))"
  by (simp add: demo_defs run_defs)

text \<open>
  C5. In a request of the chat-with-tool-calls family, a user message of the history
  whose content is an array becomes exactly one chat message, at its place in the
  sequence, with role \<^verbatim>\<open>tool\<close>; its \<^verbatim>\<open>tool_call_id\<close> is the \<^verbatim>\<open>tool_use_id\<close> of the
  first block of the array, whatever follows that block (\<^verbatim>\<open>unknown\<close> stands in when
  the array is empty or the first block has no id or an empty one).
\<close>

theorem tool_results_encode_as_one_tool_message:
  assumes "provider config = groq"
  shows "\<exists>m body.
           req_body (build_request env
                       (earlier @ \<lparr>role = User, content = Blocks bs\<rparr> # later)
                       systemPrompt config) = ChatRequest body
         \<and> cb_messages body = openAiMessages env earlier systemPrompt
                                 @ m # concat (map (encode_message env) later)
         \<and> cm_role m = ''tool''
         \<and> tool_call_id m =
             Some (case bs of [] \<Rightarrow> ''unknown''
                   | b # rest \<Rightarrow> or_else (blk_tool_use_id b) ''unknown'')"
  using assms
  by (cases bs) (simp_all add: build_request_def openAiMessages_def encode_message_def)

theorem tool_results_encode_as_one_tool_message_witness:
  "provider (demo_config groq) = groq
   \<and> (\<exists>m body.
         req_body (build_request demo_env
                     ([] @ \<lparr>role = User, content = Blocks
                              [tool_result_block (Some ''t1'') ''ok'',
                               tool_result_block (Some ''t2'') ''none'']\<rparr> # [])
                     ''sys'' (demo_config groq)) = ChatRequest body
       \<and> cb_messages body = openAiMessages demo_env [] ''sys''
                               @ m # concat (map (encode_message demo_env) [])
       \<and> cm_role m = ''tool''
       \<and> tool_call_id m = Some ''t1'')"
proof -
  have p: "provider (demo_config groq) = groq"
    by (simp add: demo_config_def)
  from tool_results_encode_as_one_tool_message [OF p, of demo_env "[]"
      "[tool_result_block (Some ''t1'') ''ok'', tool_result_block (Some ''t2'') ''none'']"
      "[]" "''sys''"] p
  show ?thesis
    by (simp add: tool_result_block_def)
qed

text \<open>
  On the first model request of a user turn, a response whose status is not a success
  and whose message \<^verbatim>\<open>API error: <status> - <body>\<close> does not contain \<^verbatim>\<open>SIGINT\<close>
  makes the turn end with that message printed, the program awaiting input again, the
  history extended by the user's message only, and exactly one request made (the
  fetches that follow in the script are untouched).
\<close>

theorem http_error_reported_once:
  assumes "\<not> is_command userInput"
    and "fetch (build_request env (messages s @ [\<lparr>role = User, content = Text userInput\<rparr>])
           systemPrompt config) = Inr response"
    and "\<not> ok response"
    and "\<not> str_includes (''API error: '' @ string_of_nat (status response) @ '' - ''
                           @ text_body response) ''SIGINT''"
  shows "main_iteration env config systemPrompt userInput (fetch # script) s =
           (AwaitingUserInput, script,
            s\<lparr>messages := messages s @ [\<lparr>role = User, content = Text userInput\<rparr>],
              trace := trace s @
                [Pushed \<lparr>role = User, content = Text userInput\<rparr>,
                 ApiCall (messages s @ [\<lparr>role = User, content = Text userInput\<rparr>]),
                 Reported (''API error: '' @ string_of_nat (status response) @ '' - ''
                           @ text_body response)]\<rparr>)"
  using assms
  by (simp add: main_iteration_def is_command_def model_turn_def callApi_def push_def Let_def)

theorem http_error_reported_once_witness:
  "\<not> is_command ''list files''
   \<and> demo_fetch_status 500 ''down''
        (build_request demo_env
           (messages demo_state @ [\<lparr>role = User, content = Text ''list files''\<rparr>])
           ''sys'' (demo_config groq))
      = Inr \<lparr>ok = False, status = 500, text_body = ''down'',
             json_body = Inl (Error ''Unexpected token'')\<rparr>
   \<and> \<not> str_includes ''API error: 500 - down'' ''SIGINT''
   \<and> main_iteration demo_env (demo_config groq) ''sys'' ''list files''
        [demo_fetch_status 500 ''down'', demo_fetch_ok demo_text_response] demo_state
      = (AwaitingUserInput, [demo_fetch_ok demo_text_response],
         demo_state\<lparr>messages := [\<lparr>role = User, content = Text ''list files''\<rparr>],
           trace := [Pushed \<lparr>role = User, content = Text ''list files''\<rparr>,
                     ApiCall [\<lparr>role = User, content = Text ''list files''\<rparr>],
                     Reported ''API error: 500 - down'']\<rparr>)"
proof -
  let ?r = "\<lparr>ok = False, status = 500, text_body = ''down'',
             json_body = Inl (Error ''Unexpected token'')\<rparr>"
  have n: "string_of_nat 500 = ''500''"
    by (simp add: string_of_nat.simps digit_char_def)
  have a: "\<not> is_command ''list files''"
    by (simp add: is_command_def)
  have b: "demo_fetch_status 500 ''down''
        (build_request demo_env
           (messages demo_state @ [\<lparr>role = User, content = Text ''list files''\<rparr>])
           ''sys'' (demo_config groq)) = Inr ?r"
    by (simp add: demo_fetch_status_def)
  have c: "\<not> ok ?r"
    by simp
  have d: "\<not> str_includes (''API error: '' @ string_of_nat (status ?r) @ '' - ''
                           @ text_body ?r) ''SIGINT''"
    by (simp add: n str_includes_def)
  from http_error_reported_once [where fetch = "demo_fetch_status 500 ''down''"
      and script = "[demo_fetch_ok demo_text_response]", OF a b c d] a b d
  show ?thesis
    by (simp add: n demo_state_def)
qed

text \<open>
  C6, which the code breaks. The property: a response whose status is not a success,
  on the first model request of a user turn, is reported, and the program awaits
  input again with the history extended by the user's message only and no second
  request. The \<^verbatim>\<open>catch\<close> first tests whether the message contains \<^verbatim>\<open>SIGINT\<close>, to
  leave the loop on an interrupt; the message of an HTTP error embeds the response
  body, so on status 500 with the body \<^verbatim>\<open>SIGINT\<close> the program leaves the outer loop
  and prints nothing, where every other HTTP error is printed.
\<close>

theorem http_error_with_SIGINT_exits_silently:
  "main_iteration demo_env (demo_config groq) ''sys'' ''list files''
     [demo_fetch_status 500 ''SIGINT''] demo_state
   = (Exited, [],
      demo_state\<lparr>messages := [\<lparr>role = User, content = Text ''list files''\<rparr>],
        trace := [Pushed \<lparr>role = User, content = Text ''list files''\<rparr>,
                  ApiCall [\<lparr>role = User, content = Text ''list files''\<rparr>]]\<rparr>)"
  by (simp add: main_iteration_def model_turn_def callApi_def push_def Let_def
      demo_fetch_status_def demo_state_def string_of_nat.simps digit_char_def
      str_includes_def)



text \<open>
  C8. For every tool of the table and every parameter it declares, the schema made
  for the tool lists the parameter as required exactly when the declared type does
  not end with \<^verbatim>\<open>?\<close>, and gives it the type \<^verbatim>\<open>integer\<close> when the declared type
  without the marker is \<^verbatim>\<open>number\<close>, and that type unchanged otherwise.
\<close>

theorem makeSchema_required_and_types:
  "\<forall>(name, d) \<in> set (TOOLS env). \<forall>(paramName, paramType) \<in> set (params d).
     tool_schema (name, d) \<in> set (makeSchema env)
     \<and> ts_name (tool_schema (name, d)) = name
     \<and> (paramName \<in> set (required (input_schema (tool_schema (name, d))))
          \<longleftrightarrow> \<not> endsWith paramType ''?'')
     \<and> map_of (properties (input_schema (tool_schema (name, d)))) paramName
          = Some \<lparr>ps_type = (if base_type paramType = ''number'' then ''integer''
                              else base_type paramType)\<rparr>"
  by (simp add: TOOLS_def makeSchema_def tool_schema_def endsWith_def replace_def
      base_type_def Let_def)

theorem makeSchema_required_and_types_witness:
  "(''read'',
    \<lparr>description = ''Read file with line numbers (file path, not directory)'',
     params = [(''path'', ''string''), (''offset'', ''number?''), (''limit'', ''number?'')],
     fn = readFile demo_env\<rparr>) \<in> set (TOOLS demo_env)
   \<and> ''offset'' \<notin> set (required (input_schema (makeSchema demo_env ! 0)))
   \<and> ''path'' \<in> set (required (input_schema (makeSchema demo_env ! 0)))
   \<and> map_of (properties (input_schema (makeSchema demo_env ! 0))) ''offset''
       = Some \<lparr>ps_type = ''integer''\<rparr>
   \<and> map_of (properties (input_schema (makeSchema demo_env ! 0))) ''path''
       = Some \<lparr>ps_type = ''string''\<rparr>"
  using makeSchema_required_and_types [of demo_env]
  by (simp add: TOOLS_def makeSchema_def endsWith_def base_type_def)

text \<open>
  C9. When the input is not a command and the first response of the turn decodes to
  blocks none of which is a tool use, the pass of the outer loop makes exactly one
  request, leaves the rest of the script unread, returns to awaiting input, and adds
  exactly the user message and the assistant message to the history.
\<close>

theorem no_tool_use_ends_turn_after_one_request:
  assumes "\<not> is_command userInput"
    and "callApi env fetch (messages s @ [\<lparr>role = User, content = Text userInput\<rparr>])
           systemPrompt config = Inr response"
    and "decode_response env config response = Inr contentBlocks"
    and "filter is_tool_use contentBlocks = []"
  shows "main_iteration env config systemPrompt userInput (fetch # script) s =
           (AwaitingUserInput, script,
            s\<lparr>messages := messages s @
                [\<lparr>role = User, content = Text userInput\<rparr>,
                 \<lparr>role = Assistant, content = Blocks contentBlocks\<rparr>],
              trace := trace s @
                [Pushed \<lparr>role = User, content = Text userInput\<rparr>,
                 ApiCall (messages s @ [\<lparr>role = User, content = Text userInput\<rparr>]),
                 Pushed \<lparr>role = Assistant, content = Blocks contentBlocks\<rparr>]\<rparr>)"
  using assms
  by (simp add: main_iteration_def is_command_def model_turn_def push_def Let_def
      dispatch_no_tool_use)

theorem no_tool_use_ends_turn_after_one_request_witness:
  "\<not> is_command ''hello''
   \<and> callApi demo_env (demo_fetch_ok demo_text_response)
        (messages demo_state @ [\<lparr>role = User, content = Text ''hello''\<rparr>]) ''sys''
        (demo_config anthropic) = Inr demo_text_response
   \<and> decode_response demo_env (demo_config anthropic) demo_text_response
        = Inr [text_block ''done'']
   \<and> filter is_tool_use [text_block ''done''] = []
   \<and> main_iteration demo_env (demo_config anthropic) ''sys'' ''hello''
        [demo_fetch_ok demo_text_response, demo_fetch_ok demo_tool_response] demo_state
      = (AwaitingUserInput, [demo_fetch_ok demo_tool_response],
         demo_state\<lparr>messages :=
             [\<lparr>role = User, content = Text ''hello''\<rparr>,
              \<lparr>role = Assistant, content = Blocks [text_block ''done'']\<rparr>],
           trace :=
             [Pushed \<lparr>role = User, content = Text ''hello''\<rparr>,
              ApiCall [\<lparr>role = User, content = Text ''hello''\<rparr>],
              Pushed \<lparr>role = Assistant, content = Blocks [text_block ''done'']\<rparr>]\<rparr>)"
proof -
  have a: "\<not> is_command ''hello''"
    by (simp add: is_command_def)
  have b: "callApi demo_env (demo_fetch_ok demo_text_response)
        (messages demo_state @ [\<lparr>role = User, content = Text ''hello''\<rparr>]) ''sys''
        (demo_config anthropic) = Inr demo_text_response"
    by (simp add: callApi_def demo_fetch_ok_def)
  have c: "decode_response demo_env (demo_config anthropic) demo_text_response
        = Inr [text_block ''done'']"
    by (simp add: decode_response_def demo_config_def demo_text_response_def)
  have d: "filter is_tool_use [text_block ''done''] = []"
    by (simp add: is_tool_use_def text_block_def)
  from no_tool_use_ends_turn_after_one_request
    [where script = "[demo_fetch_ok demo_tool_response]", OF a b c d] a b c d
  show ?thesis
    by (simp add: demo_state_def)
qed

text \<open>
  C10. When \<^verbatim>\<open>editFile\<close> returns a string that begins with \<^verbatim>\<open>error:\<close> (the old
  string is not in the file, or it occurs more than once and \<^verbatim>\<open>all\<close> is not set),
  the file system is as it was before the call.
\<close>

theorem editFile_error_leaves_files:
  assumes "fst (editFile env args w) = Inr result"
    and "prefix ''error:'' result"
  shows "snd (editFile env args w) = w"
proof -
  have "editFile env args w = (Inr result, snd (editFile env args w))"
    using assms(1) by (metis prod.collapse)
  from editFile_cases [OF this] assms(2) show ?thesis
    by auto
qed

theorem editFile_error_leaves_files_witness:
  "fst (editFile demo_env
          (JObj [(''path'', JStr ''a.txt''), (''old'', JStr ''x''), (''new'', JStr ''y'')])
          [(''a.txt'', ''xx'')])
     = Inr ''error: old_string appears 2 times, must be unique (use all=true)''
   \<and> prefix ''error:'' ''error: old_string appears 2 times, must be unique (use all=true)''
   \<and> snd (editFile demo_env
            (JObj [(''path'', JStr ''a.txt''), (''old'', JStr ''x''), (''new'', JStr ''y'')])
            [(''a.txt'', ''xx'')])
     = [(''a.txt'', ''xx'')]"
proof -
  have n: "string_of_nat (Suc (Suc 0)) = ''2''"
    by (subst string_of_nat.simps) (simp add: digit_char_def)
  have a: "fst (editFile demo_env
          (JObj [(''path'', JStr ''a.txt''), (''old'', JStr ''x''), (''new'', JStr ''y'')])
          [(''a.txt'', ''xx'')])
     = Inr ''error: old_string appears 2 times, must be unique (use all=true)''"
    by (simp add: editFile_def demo_env_def demo_readFileSync_def str_includes_def
        match_count_def n Let_def)
  have b: "prefix ''error:'' ''error: old_string appears 2 times, must be unique (use all=true)''"
    by simp
  from editFile_error_leaves_files [OF a b] a b show ?thesis
    by blast
qed

end
